theory Spec2Isabelle
  imports Complex_Main "HOL-Library.AList"
begin

section \<open>Data model of \<open>highz_exp/reflection_proc.py\<close>\<close>

text \<open>
  A one-port \<open>rf.Network\<close> as this module uses it: the frequency points \<open>ntwk.f\<close> and the
  reflection coefficients \<open>ntwk.s[:, 0, 0]\<close>. NumPy's \<open>float64\<close> and \<open>complex128\<close> are
  idealised as \<open>real\<close> and \<open>complex\<close>: rounding is not part of the model, and neither are
  non-finite samples. (Only \<open>s11_reflected_power\<close>, further down, is about the edge of
  the floating-point range and gets numbers with infinities and NaN.)
\<close>

record network =
  ntwk_f :: "real list"
  ntwk_s :: "complex list"

text \<open>
  What a call can raise. \<open>FileFormatError\<close> is whatever \<open>rf.Network(file)\<close> raises on a
  path it cannot read, \<open>ArityError\<close> the \<open>AssertionError\<close> of \<open>plot_measured_vs_fitted\<close>,
  \<open>FitConvergenceError\<close> the failure of \<open>curve_fit\<close>, \<open>ShapeError\<close> the \<open>ValueError\<close> of
  NumPy broadcasting and of \<open>Axes.plot\<close> on arrays of different lengths,
  \<open>ZeroDivisionError\<close> that of \<open>idx % len(color_cycle)\<close> on an empty colour cycle,
  \<open>OverflowError\<close> that of Python's \<open>**\<close> on floats, \<open>TypeError\<close> that of a call with a
  keyword argument the callee does not have.
  \<open>LengthMismatchError\<close> is the error the specification names for the loader.
\<close>

datatype error =
    FileFormatError
  | LengthMismatchError
  | ArityError
  | FitConvergenceError
  | ShapeError
  | ZeroDivisionError
  | OverflowError
  | TypeError

text \<open>
  A Python \<open>dict\<close> keeps its keys in insertion order; storing under a key that is present
  replaces the value in place, storing under a new key appends. That is \<open>AList.update\<close>.
\<close>

type_synonym 'v dict = "(string \<times> 'v) list"

section \<open>\<open>load_s1p\<close>\<close>

text \<open>
  \<open>os.path.basename\<close> (POSIX): everything after the last slash.
\<close>

definition pbase :: "string \<Rightarrow> string" where
  "pbase p = rev (takeWhile (\<lambda>c. c \<noteq> CHR ''/'') (rev p))"

text \<open>
  \<open>rf.Network(file)\<close> reads the file system: \<open>fs\<close> lists the paths that parse as a one-port
  touchstone file, each with the network it holds.
\<close>

type_synonym files = "(string \<times> network) list"

definition rf_Network :: "files \<Rightarrow> string \<Rightarrow> error + network" where
  "rf_Network fs file =
     (case map_of fs file of None \<Rightarrow> Inl FileFormatError | Some n \<Rightarrow> Inr n)"

text \<open>
  The dict comprehension \<open>{label: rf.Network(file) for file, label in zip(...)}\<close>: one entry
  per pair, in order, stopping at the first file that fails to load.
\<close>

fun load_entries ::
  "files \<Rightarrow> (string \<times> string) list \<Rightarrow> network dict \<Rightarrow> error + network dict" where
  "load_entries fs [] d = Inr d"
| "load_entries fs ((file, label) # ps) d =
     (case rf_Network fs file of
        Inl e \<Rightarrow> Inl e
      | Inr n \<Rightarrow> load_entries fs ps (AList.update label n d))"

definition load_s1p ::
  "files \<Rightarrow> string list \<Rightarrow> string list option \<Rightarrow> error + network dict" where
  "load_s1p fs s1p_files labels =
     (let labels' = (case labels of None \<Rightarrow> map pbase s1p_files | Some ls \<Rightarrow> ls)
      in load_entries fs (zip s1p_files labels') [])"

section \<open>\<open>LNA_total_reflection\<close>\<close>

text \<open>
  An elementwise operation of NumPy on two one-dimensional arrays: arrays of equal length
  are combined point by point, an array of length one is stretched to the other's length,
  and any other pair of lengths raises.
\<close>

definition np_broadcast :: "('a \<Rightarrow> 'b \<Rightarrow> 'c) \<Rightarrow> 'a list \<Rightarrow> 'b list \<Rightarrow> error + 'c list" where
  "np_broadcast opr xs ys =
     (if length xs = length ys then Inr (map2 opr xs ys)
      else if length xs = 1 then Inr (map (opr (hd xs)) ys)
      else if length ys = 1 then Inr (map (\<lambda>x. opr x (hd ys)) xs)
      else Inl ShapeError)"

text \<open>
  \<open>a_lna = rho_cable * 1 / (1 - rho_cable*rho_LNA)\<close>, in Python's order of evaluation:
  \<open>rho_cable * 1\<close>, then \<open>rho_cable*rho_LNA\<close>, then \<open>1 - _\<close>, then the quotient.
  \<open>rf.Network(s=..., f=...)\<close> is the record constructor: scikit-rf is taken to keep the
  frequency points as they are passed (in hertz). Where the denominator is zero NumPy
  yields a non-finite value and HOL's total division yields \<open>0\<close>.
\<close>

definition LNA_total_reflection :: "network \<Rightarrow> network \<Rightarrow> error + network" where
  "LNA_total_reflection rho_cable_ntwk rho_LNA_ntwk =
     (let rho_cable = ntwk_s rho_cable_ntwk;
          rho_LNA = ntwk_s rho_LNA_ntwk
      in case np_broadcast (\<lambda>c l. c * l) rho_cable rho_LNA of
           Inl e \<Rightarrow> Inl e
         | Inr cable_lna \<Rightarrow>
             (case np_broadcast (\<lambda>n d. n / d) (map (\<lambda>c. c * 1) rho_cable) (map (\<lambda>p. 1 - p) cable_lna) of
                Inl e \<Rightarrow> Inl e
              | Inr a_lna \<Rightarrow> Inr \<lparr>ntwk_f = ntwk_f rho_cable_ntwk, ntwk_s = a_lna\<rparr>))"

section \<open>Effects\<close>

text \<open>
  What a call does to the outside world, in the order it does it: files written, figures
  drawn, text printed. A figure is named by its position among the figures the call
  creates (\<open>0\<close> is the first \<open>plt.subplots\<close>). Calls that only style a figure
  (size, grid, legend, axis labels, layout) are recorded by name and have no arguments.
\<close>

datatype axes = Ax_mag | Ax_ratio | Ax_phase | Ax_smith

datatype event =
    WriteTouchstone string network
  | Subplots nat nat
  | Plot axes "real list" "real list" string string
  | AxHLine axes real
  | PlotSmith nat string network
  | SetTitle nat string
  | Suptitle string
  | SetYLabel axes string
  | Style string
  | SaveFig nat string
  | Print string
  | MakeDirs string
  | Show

section \<open>\<open>fit_exp_decay\<close> and \<open>fit_reflection_coeff\<close>\<close>

text \<open>
  \<open>Network.write_touchstone\<close> of scikit-rf, as the fitters call it: with the file name and
  the names of the keyword arguments of the call. The method has the keyword parameters
  listed here and no \<open>**kwargs\<close>; Python binds the arguments before the body runs, so a
  call with any other keyword raises TypeError and writes nothing.
\<close>

definition write_touchstone_keywords :: "string list" where
  "write_touchstone_keywords =
     [''filename'', ''dir'', ''write_z0'', ''skrf_comment'', ''return_string'', ''to_archive'',
      ''form'', ''format_spec_A'', ''format_spec_B'', ''format_spec_freq'', ''r_ref'',
      ''write_noise'']"

definition write_touchstone :: "network \<Rightarrow> string \<Rightarrow> string list \<Rightarrow> error + event list" where
  "write_touchstone ntwk filename keywords =
     (if list_all (\<lambda>k. k \<in> set write_touchstone_keywords) keywords
      then Inr [WriteTouchstone filename ntwk]
      else Inl TypeError)"

text \<open>
  \<open>if save_path is not None: s1p_fitted_ntwk.write_touchstone(save_path, overwrite=True)\<close>,
  the last statement of both fitters before \<open>return\<close>.
\<close>

definition save_fitted :: "network \<Rightarrow> string option \<Rightarrow> error + event list" where
  "save_fitted s1p_fitted_ntwk save_path =
     (case save_path of
        None \<Rightarrow> Inr []
      | Some path \<Rightarrow> write_touchstone s1p_fitted_ntwk path [''overwrite''])"

text \<open>
  \<open>scipy.optimize.curve_fit(model, xdata, ydata, p0)\<close> is a parameter of the fitters: it
  gets the model function, the frequency points, the data vector and the initial guess,
  and either raises or returns as many fitted parameters as \<open>p0\<close> has.
\<close>

type_synonym model4 = "real list \<Rightarrow> real \<Rightarrow> real \<Rightarrow> real \<Rightarrow> real \<Rightarrow> real list"
type_synonym solver4 =
  "model4 \<Rightarrow> real list \<Rightarrow> real list \<Rightarrow> real \<times> real \<times> real \<times> real
     \<Rightarrow> error + real \<times> real \<times> real \<times> real"

type_synonym model3 = "real list \<Rightarrow> real \<Rightarrow> real \<Rightarrow> real \<Rightarrow> real list"
type_synonym solver3 =
  "model3 \<Rightarrow> real list \<Rightarrow> real list \<Rightarrow> real \<times> real \<times> real
     \<Rightarrow> error + real \<times> real \<times> real"

text \<open>\<open>np.concatenate([gamma_meas.real, gamma_meas.imag])\<close>\<close>

definition gamma_meas_comb :: "network \<Rightarrow> real list" where
  "gamma_meas_comb s1p_ntwk = map Re (ntwk_s s1p_ntwk) @ map Im (ntwk_s s1p_ntwk)"

text \<open>
  The inner \<open>reflection_model\<close> of \<open>fit_exp_decay\<close>. Its arrays all have the length of
  \<open>freq\<close>, so the elementwise products are written point by point.
\<close>

definition reflection_model_decay :: model4 where
  "reflection_model_decay freq A_real A_imag t_delay alpha =
     (let A = complex_of_real A_real + \<i> * complex_of_real A_imag;
          model = map (\<lambda>x. complex_of_real (exp (- alpha * x)) * A
                              * exp (\<i> * 2 * complex_of_real pi * complex_of_real x
                                       * complex_of_real t_delay)) freq
      in map Re model @ map Im model)"

definition fit_exp_decay ::
  "solver4 \<Rightarrow> network \<Rightarrow> real \<Rightarrow> real \<Rightarrow> real \<Rightarrow> real \<Rightarrow> string option
     \<Rightarrow> error + (complex \<times> real \<times> real \<times> network) \<times> event list" where
  "fit_exp_decay curve_fit s1p_ntwk guess_A_real guess_A_imag guess_delay guess_alpha save_path =
     (let f = ntwk_f s1p_ntwk
      in case curve_fit reflection_model_decay f (gamma_meas_comb s1p_ntwk)
                (guess_A_real, guess_A_imag, guess_delay, guess_alpha) of
           Inl e \<Rightarrow> Inl e
         | Inr (p0, p1, p2, p3) \<Rightarrow>
             (let A_fitted = complex_of_real p0 + \<i> * complex_of_real p1;
                  t_delay_fitted = p2;
                  alpha_fitted = p3;
                  s1p_fitted = map (\<lambda>x. A_fitted * complex_of_real (exp (- alpha_fitted * x))
                                           * exp (\<i> * 2 * complex_of_real pi * complex_of_real x
                                                    * complex_of_real t_delay_fitted)) f;
                  s1p_fitted_ntwk = \<lparr>ntwk_f = f, ntwk_s = s1p_fitted\<rparr>
              in case save_fitted s1p_fitted_ntwk save_path of
                   Inl e \<Rightarrow> Inl e
                 | Inr evs \<Rightarrow>
                     Inr ((A_fitted, t_delay_fitted, alpha_fitted, s1p_fitted_ntwk), evs)))"

text \<open>The inner \<open>reflection_model\<close> of \<open>fit_reflection_coeff\<close>.\<close>

definition reflection_model_delay :: model3 where
  "reflection_model_delay freq A_real A_imag t_delay =
     (let A = complex_of_real A_real + \<i> * complex_of_real A_imag;
          model = map (\<lambda>x. A * exp (\<i> * 2 * complex_of_real pi * complex_of_real x
                                       * complex_of_real t_delay)) freq
      in map Re model @ map Im model)"

definition fit_reflection_coeff ::
  "solver3 \<Rightarrow> network \<Rightarrow> real \<Rightarrow> real \<Rightarrow> real \<Rightarrow> string option
     \<Rightarrow> error + (complex \<times> real \<times> network) \<times> event list" where
  "fit_reflection_coeff curve_fit s1p_ntwk guess_A_real guess_A_imag guess_delay save_path =
     (let f = ntwk_f s1p_ntwk
      in case curve_fit reflection_model_delay f (gamma_meas_comb s1p_ntwk)
                (guess_A_real, guess_A_imag, guess_delay) of
           Inl e \<Rightarrow> Inl e
         | Inr (p0, p1, p2) \<Rightarrow>
             (let A_fitted = complex_of_real p0 + \<i> * complex_of_real p1;
                  t_delay_fitted = p2;
                  s1p_fitted = map (\<lambda>x. A_fitted
                                           * exp (\<i> * 2 * complex_of_real pi * complex_of_real x
                                                    * complex_of_real t_delay_fitted)) f;
                  s1p_fitted_ntwk = \<lparr>ntwk_f = f, ntwk_s = s1p_fitted\<rparr>
              in case save_fitted s1p_fitted_ntwk save_path of
                   Inl e \<Rightarrow> Inl e
                 | Inr evs \<Rightarrow> Inr ((A_fitted, t_delay_fitted, s1p_fitted_ntwk), evs)))"

text \<open>
  The two models as the specification words them: \<open>A * exp(i*2*pi*f*tau)\<close> for the delay
  model and \<open>A * exp(-alpha*f) * exp(i*2*pi*f*tau)\<close> for the decay model, at one frequency.
\<close>

definition spec_delay_model :: "complex \<Rightarrow> real \<Rightarrow> real \<Rightarrow> complex" where
  "spec_delay_model A tau x = A * exp (\<i> * complex_of_real (2 * pi * x * tau))"

definition spec_decay_model :: "complex \<Rightarrow> real \<Rightarrow> real \<Rightarrow> real \<Rightarrow> complex" where
  "spec_decay_model A tau alpha x =
     A * complex_of_real (exp (- alpha * x)) * exp (\<i> * complex_of_real (2 * pi * x * tau))"

section \<open>Plotting\<close>

text \<open>
  \<open>20 * np.log10(np.abs(spec)) if scale == 'log' else np.abs(spec)\<close>. The plotted numbers
  are idealised reals: where NumPy yields a non-finite value (the logarithm of zero, a
  division by zero) HOL's total functions yield some real instead.
\<close>

definition magnitude :: "string \<Rightarrow> complex list \<Rightarrow> real list" where
  "magnitude scale spec =
     (if scale = ''log'' then map (\<lambda>z. 20 * log 10 (cmod z)) spec else map cmod spec)"

text \<open>\<open>ax.plot(x, y, label=..., color=...)\<close> raises on arrays of different lengths.\<close>

definition ax_plot :: "axes \<Rightarrow> real list \<Rightarrow> real list \<Rightarrow> string \<Rightarrow> string \<Rightarrow> error + event" where
  "ax_plot ax x y label color =
     (if length x = length y then Inr (Plot ax x y label color) else Inl ShapeError)"

text \<open>
  The end of \<open>plot_measured_vs_fitted\<close> and of \<open>plot_s11_reflect\<close>:
  \<open>if save_plot: if save_path is not None: plt.savefig(save_path) else: print(...)\<close>.
\<close>

definition save_or_warn :: "bool \<Rightarrow> string option \<Rightarrow> event list" where
  "save_or_warn save_plot save_path =
     (if save_plot then
        (case save_path of
           Some path \<Rightarrow> [SaveFig 0 path]
         | None \<Rightarrow> [Print ''! Save path not entered.''])
      else [])"

text \<open>
  \<open>plot_measured_vs_fitted\<close>. The \<open>assert\<close> comes first; \<open>ntwk_dict[keys[0]]\<close> and
  \<open>ntwk_dict[keys[1]]\<close> are lookups under the first and the second key.
\<close>

definition plot_measured_vs_fitted ::
  "network dict \<Rightarrow> string \<Rightarrow> bool \<Rightarrow> string option \<Rightarrow> string \<Rightarrow> string
     \<Rightarrow> error + event list" where
  "plot_measured_vs_fitted ntwk_dict scale save_plot save_path ylabel title =
     (if length ntwk_dict \<noteq> 2 then Inl ArityError
      else
        let keys = map fst ntwk_dict;
            measured_ntwk = the (map_of ntwk_dict (keys ! 0));
            fitted_ntwk = the (map_of ntwk_dict (keys ! 1));
            freq = ntwk_f measured_ntwk;
            spec_measured = ntwk_s measured_ntwk;
            spec_fitted = ntwk_s fitted_ntwk;
            mag_measured = magnitude scale spec_measured;
            mag_fitted = magnitude scale spec_fitted;
            mhz = map (\<lambda>v. v / 1000000) freq
        in case np_broadcast (\<lambda>m t. m / t) mag_measured mag_fitted of
             Inl e \<Rightarrow> Inl e
           | Inr ratio \<Rightarrow>
         (case ax_plot Ax_mag mhz mag_measured (keys ! 0) ''C0'' of
             Inl e \<Rightarrow> Inl e
           | Inr trace_measured \<Rightarrow>
         (case ax_plot Ax_mag mhz mag_fitted (keys ! 1) ''C1'' of
             Inl e \<Rightarrow> Inl e
           | Inr trace_fitted \<Rightarrow>
         (case ax_plot Ax_ratio mhz (map (\<lambda>r. 1 / r) ratio) [] ''C2'' of
             Inl e \<Rightarrow> Inl e
           | Inr trace_ratio \<Rightarrow>
               Inr ([Subplots 0 2, trace_measured, trace_fitted,
                     SetYLabel Ax_mag ylabel, Style ''ax_mag.legend'', Style ''ax_mag.grid'',
                     trace_ratio, AxHLine Ax_ratio 1,
                     SetYLabel Ax_ratio ''Fitted/Measured'', Style ''ax_ratio.set_xlabel'',
                     Style ''ax_ratio.grid'', Style ''ax_ratio.legend'',
                     Suptitle title, Style ''fig.tight_layout'']
                    @ save_or_warn save_plot save_path
                    @ [Show])))))"

text \<open>
  The loop of \<open>plot_s11_reflect\<close> over \<open>enumerate(ntwk_dict.items())\<close>, from index \<open>idx\<close> on.
  \<open>color_cycle\<close> is \<open>plt.rcParams['axes.prop_cycle'].by_key()['color']\<close>.
\<close>

fun s11_traces ::
  "string list \<Rightarrow> string \<Rightarrow> bool \<Rightarrow> nat \<Rightarrow> network dict \<Rightarrow> error + event list" where
  "s11_traces color_cycle scale show_phase idx [] = Inr []"
| "s11_traces color_cycle scale show_phase idx ((label, ntwk) # rest) =
     (let freq = ntwk_f ntwk;
          s11 = ntwk_s ntwk;
          mag = magnitude scale s11;
          phase = map (\<lambda>z. Arg z * 180 / pi) s11;
          mhz = map (\<lambda>v. v / 1000000) freq
      in if color_cycle = [] then Inl ZeroDivisionError
         else
           let color = color_cycle ! (idx mod length color_cycle)
           in case ax_plot Ax_mag mhz mag label color of
                Inl e \<Rightarrow> Inl e
              | Inr trace_mag \<Rightarrow>
            (case (if show_phase
                   then (case ax_plot Ax_phase mhz phase label color of
                           Inl e \<Rightarrow> Inl e
                         | Inr trace_phase \<Rightarrow> Inr [trace_phase])
                   else Inr []) of
                Inl e \<Rightarrow> Inl e
              | Inr traces_phase \<Rightarrow>
            (case s11_traces color_cycle scale show_phase (Suc idx) rest of
                Inl e \<Rightarrow> Inl e
              | Inr later \<Rightarrow> Inr (trace_mag # traces_phase @ later))))"

definition plot_s11_reflect ::
  "string list \<Rightarrow> network dict \<Rightarrow> string \<Rightarrow> bool \<Rightarrow> bool \<Rightarrow> string option \<Rightarrow> string \<Rightarrow> string
     \<Rightarrow> error + event list" where
  "plot_s11_reflect color_cycle ntwk_dict scale save_plot show_phase save_path ylabel title =
     (let nrows = (if show_phase then 2 else 1)
      in case s11_traces color_cycle scale show_phase 0 ntwk_dict of
           Inl e \<Rightarrow> Inl e
         | Inr traces \<Rightarrow>
             Inr ([Subplots 0 nrows] @ traces
                  @ [SetYLabel Ax_mag ylabel, Style ''ax_mag.grid'', Style ''ax_mag.legend'']
                  @ (if show_phase
                     then [Style ''ax_phase.set_xlabel'', SetYLabel Ax_phase ''Phase [deg]'',
                           Style ''ax_phase.grid'', Style ''ax_phase.legend'']
                     else [Style ''ax_mag.set_xlabel''])
                  @ [Suptitle title, Style ''fig.tight_layout'']
                  @ save_or_warn save_plot save_path
                  @ [Show]))"

text \<open>
  What \<open>plot_smith_chart\<close> reads of the operating system: \<open>os.getcwd()\<close> and the paths for
  which \<open>os.path.exists\<close> holds.
\<close>

record os_env =
  cwd :: string
  existing :: "string set"

text \<open>\<open>os.path.join\<close> (POSIX) of two components.\<close>

definition pjoin :: "string \<Rightarrow> string \<Rightarrow> string" where
  "pjoin a b =
     (if b \<noteq> [] \<and> hd b = CHR ''/'' then b
      else if a = [] \<or> last a = CHR ''/'' then a @ b
      else a @ ''/'' @ b)"

text \<open>\<open>s.replace(' ', '_')\<close>\<close>

definition replace_spaces :: "string \<Rightarrow> string" where
  "replace_spaces s = map (\<lambda>c. if c = CHR '' '' then CHR ''_'' else c) s"

text \<open>
  One round of the loop \<open>if individual: for label, ntwk in ntwk_dict.items()\<close>, for the
  figure numbered \<open>fig\<close>; \<open>suffix\<close> is the variable as the loop finds it.
\<close>

definition smith_individual :: "bool \<Rightarrow> string \<Rightarrow> nat \<times> string \<times> network \<Rightarrow> event list" where
  "smith_individual save_plot suffix entry =
     (case entry of (fig, label, ntwk) \<Rightarrow>
        [Subplots fig 1, Style ''fig.set_size_inches'', PlotSmith fig label ntwk,
         SetTitle fig (''Smith Chart: '' @ label)]
        @ (if save_plot
           then (let label_safe = replace_spaces label;
                     outname = suffix @ ''_smith_'' @ label_safe @ ''.png''
                 in [SaveFig fig outname])
           else []))"

text \<open>
  \<open>plot_smith_chart\<close>. The title is set from the suffix as passed; \<open>suffix\<close> is reassigned
  under \<open>if save_plot\<close> only. \<open>legend_loc\<close> is a parameter the body never reads. Failures of
  \<open>plot_s_smith\<close>, \<open>os.makedirs\<close> and \<open>savefig\<close> themselves are not modelled.
\<close>

definition plot_smith_chart ::
  "os_env \<Rightarrow> network dict \<Rightarrow> string \<Rightarrow> bool \<Rightarrow> string option \<Rightarrow> string \<Rightarrow> bool \<Rightarrow> event list" where
  "plot_smith_chart env ntwk_dict suffix save_plot save_dir legend_loc individual =
     (let combined =
            [Subplots 0 1, Style ''fig.set_size_inches'']
            @ map (\<lambda>(label, ntwk). PlotSmith 0 label ntwk) ntwk_dict
            @ [SetTitle 0 (suffix @ '' Smith Chart''), Style ''ax.legend'',
               Style ''plt.tight_layout''];
          suffix' = (if save_plot then replace_spaces suffix else suffix);
          saving =
            (if save_plot
             then (let save_dir' = (case save_dir of None \<Rightarrow> cwd env | Some d \<Rightarrow> d)
                   in (if save_dir' \<notin> existing env then [MakeDirs save_dir'] else [])
                      @ [SaveFig 0 (pjoin save_dir' (suffix' @ ''_smith_chart.png''))])
             else [])
      in combined @ saving @ [Show]
         @ (if individual
            then concat (map (smith_individual save_plot suffix') (enumerate 1 ntwk_dict))
            else []))"

section \<open>Reading a list of effects\<close>

text \<open>The figures saved, with the path each \<open>savefig\<close> was given, and the lines printed.\<close>

fun saved_figures :: "event list \<Rightarrow> (nat \<times> string) list" where
  "saved_figures [] = []"
| "saved_figures (SaveFig fig path # evs) = (fig, path) # saved_figures evs"
| "saved_figures (_ # evs) = saved_figures evs"

fun printed :: "event list \<Rightarrow> string list" where
  "printed [] = []"
| "printed (Print line # evs) = line # printed evs"
| "printed (_ # evs) = printed evs"

section \<open>\<open>s11_reflected_power\<close>\<close>

text \<open>
  This function is about what floating-point arithmetic does at the edge of its range, so
  its numbers are doubles with their special values: a finite value, the two infinities
  and NaN. Finite values are idealised as reals: rounding inside the range and the sign of
  zero are not modelled. What is modelled is the range itself: a result of magnitude
  above \<open>float_max\<close>, the largest double, overflows, and a result of magnitude at most
  \<open>float_tiny\<close>, half the smallest positive double, becomes zero.
\<close>

datatype pyfloat = Finite real | PosInf | NegInf | NaN

definition float_max :: real where
  "float_max = (2 - 1 / 2 ^ 52) * 2 ^ 1023"

definition float_tiny :: real where
  "float_tiny = 1 / 2 ^ 1075"


text \<open>
  The double an arithmetic operation of NumPy returns for the exact result \<open>r\<close>: infinity
  on overflow, zero on underflow, and neither raises.
\<close>

definition to_double :: "real \<Rightarrow> pyfloat" where
  "to_double r =
     (if float_max < \<bar>r\<bar> then (if 0 < r then PosInf else NegInf)
      else if \<bar>r\<bar> \<le> float_tiny then Finite 0
      else Finite r)"







section \<open>Properties of \<open>load_s1p\<close>\<close>

lemma pbase_segment: "CHR ''/'' \<notin> set name \<Longrightarrow> pbase (dir @ CHR ''/'' # name) = name"
proof -
  assume a: "CHR ''/'' \<notin> set name"
  have "takeWhile (\<lambda>c. c \<noteq> CHR ''/'') (rev name @ CHR ''/'' # rev dir) = rev name"
    using a by (subst takeWhile_append2) auto
  then show ?thesis by (simp add: pbase_def)
qed

lemma pbase_no_slash: "CHR ''/'' \<notin> set p \<Longrightarrow> pbase p = p"
proof -
  assume a: "CHR ''/'' \<notin> set p"
  have h: "takeWhile (\<lambda>c. c \<noteq> CHR ''/'') (rev p) = rev p"
    using a by (intro takeWhile_eq_all_conv[THEN iffD2]) auto
  show ?thesis unfolding pbase_def h by simp
qed

lemma load_entries_total:
  "fst ` set ps \<subseteq> dom (map_of fs) \<Longrightarrow> \<exists>d'. load_entries fs ps d = Inr d'"
  by (induction fs ps d rule: load_entries.induct) (auto simp: rf_Network_def split: option.splits)

lemma load_entries_Cons_Inr:
  "load_entries fs ((file, label) # ps) d = Inr d' \<Longrightarrow>
   \<exists>n. map_of fs file = Some n \<and> load_entries fs ps (AList.update label n d) = Inr d'"
  by (cases "map_of fs file") (simp_all add: rf_Network_def)

lemma load_entries_map_of:
  "load_entries fs ps d = Inr d' \<Longrightarrow>
   map_of d' = map_of d ++ map_of (rev (map (\<lambda>(file, label). (label, the (map_of fs file))) ps))"
proof (induction ps arbitrary: d)
  case Nil
  then show ?case by simp
next
  case (Cons p ps)
  obtain path label where p: "p = (path, label)" by (cases p)
  from Cons.prems obtain n where n: "map_of fs path = Some n"
    and rest: "load_entries fs ps (AList.update label n d) = Inr d'"
    unfolding p using load_entries_Cons_Inr by blast
  let ?kv = "map (\<lambda>(file, label). (label, the (map_of fs file))) ps"
  have "map_of d' = map_of (AList.update label n d) ++ map_of (rev ?kv)"
    by (rule Cons.IH[OF rest])
  also have "map_of (AList.update label n d) = map_of d ++ [label \<mapsto> n]"
    by (simp add: update_conv')
  finally have "map_of d' = map_of d ++ ([label \<mapsto> n] ++ map_of (rev ?kv))"
    by (simp only: map_add_assoc)
  moreover have "map_of (rev (map (\<lambda>(file, label). (label, the (map_of fs file))) (p # ps)))
                   = [label \<mapsto> n] ++ map_of (rev ?kv)"
    unfolding p by (simp add: n)
  ultimately show ?case by (simp only:)
qed

lemma load_entries_keys:
  "load_entries fs ps d = Inr d' \<Longrightarrow> distinct (map fst d) \<Longrightarrow>
   distinct (map fst d') \<and> set (map fst d') = set (map fst d) \<union> snd ` set ps"
proof (induction ps arbitrary: d)
  case Nil
  then show ?case by simp
next
  case (Cons p ps)
  obtain path label where p: "p = (path, label)" by (cases p)
  from Cons.prems(1) obtain n where
    rest: "load_entries fs ps (AList.update label n d) = Inr d'"
    unfolding p using load_entries_Cons_Inr by blast
  have dist: "distinct (map fst (AList.update label n d))"
    using Cons.prems(2) by (rule distinct_update)
  have keys: "set (map fst (AList.update label n d)) = insert label (set (map fst d))"
    using dom_update[of label n d] by simp
  from Cons.IH[OF rest dist] keys show ?case
    unfolding p by auto
qed

lemma load_entries_not_length_mismatch:
  "load_entries fs ps d \<noteq> Inl LengthMismatchError"
  by (induction fs ps d rule: load_entries.induct)
     (auto simp: rf_Network_def split: option.splits sum.splits)

lemma map_of_rev_last:
  "x \<in> set xs \<Longrightarrow>
   map_of (rev (map (\<lambda>g. (k g, v g)) xs)) (k x) = Some (v (last (filter (\<lambda>g. k g = k x) xs)))"
proof (induction xs rule: rev_induct)
  case Nil
  then show ?case by simp
next
  case (snoc y ys)
  show ?case
  proof (cases "k y = k x")
    case True
    then show ?thesis by simp
  next
    case False
    with snoc.prems have "x \<in> set ys" by auto
    with snoc.IH False show ?thesis by simp
  qed
qed

text \<open>
  Claim C7. When \<open>labels\<close> is omitted, each label is \<open>os.path.basename\<close> of the file
  path: the text after the last slash, extension included, and the whole path when it has
  no slash. When every file loads, the result has one key per distinct base
  name, and the value under a base name is the network of the last file in the list with
  that base name: a later file overwrites an earlier one of the same base name.
\<close>

theorem load_s1p_basename_last_wins:
  assumes "set files \<subseteq> fst ` set fs"
  shows "\<exists>d. load_s1p fs files None = Inr d
           \<and> distinct (map fst d)
           \<and> set (map fst d) = pbase ` set files
           \<and> (\<forall>file \<in> set files.
                 map_of d (pbase file) = map_of fs (last (filter (\<lambda>g. pbase g = pbase file) files)))
           \<and> (CHR ''/'' \<notin> set name
                \<longrightarrow> pbase (dir @ CHR ''/'' # name) = name \<and> pbase name = name)"
proof -
  let ?ps = "zip files (map pbase files)"
  have ps: "?ps = map (\<lambda>g. (g, pbase g)) files"
    by (induction files) auto
  have inside: "set files \<subseteq> dom (map_of fs)"
    using assms by (simp add: dom_map_of_conv_image_fst)
  have "fst ` set ?ps \<subseteq> dom (map_of fs)"
    using inside by (auto simp: ps)
  then obtain d where d: "load_entries fs ?ps [] = Inr d"
    using load_entries_total by blast
  have keys: "distinct (map fst d) \<and> set (map fst d) = pbase ` set files"
    using load_entries_keys[OF d] by (force simp: ps image_image)
  have kv: "map (\<lambda>(file, label). (label, the (map_of fs file))) ?ps = map (\<lambda>g. (pbase g, the (map_of fs g))) files"
    by (simp add: ps)
  have m: "map_of d = map_of (rev (map (\<lambda>g. (pbase g, the (map_of fs g))) files))"
    using load_entries_map_of[OF d] by (simp add: kv)
  have vals: "map_of d (pbase x) = map_of fs (last (filter (\<lambda>g. pbase g = pbase x) files))"
    if "x \<in> set files" for x
  proof -
    let ?l = "last (filter (\<lambda>g. pbase g = pbase x) files)"
    have ne: "filter (\<lambda>g. pbase g = pbase x) files \<noteq> []"
      using that by (auto simp: filter_empty_conv)
    have "?l \<in> set (filter (\<lambda>g. pbase g = pbase x) files)"
      using ne last_in_set by blast
    then have "?l \<in> dom (map_of fs)" using inside by auto
    then have "map_of fs ?l = Some (the (map_of fs ?l))" by auto
    then show ?thesis
      using map_of_rev_last[OF that, of pbase "\<lambda>g. the (map_of fs g)"] by (simp add: m)
  qed
  show ?thesis
    using d keys vals pbase_segment[of name dir] pbase_no_slash[of name]
    by (auto simp: load_s1p_def)
qed

text \<open>
  Two files \<open>lna.s1p\<close> in different directories end up under the one key \<open>lna.s1p\<close>,
  holding the second file's network.
\<close>

theorem load_s1p_basename_last_wins_witness:
  "set [''run1/lna.s1p'', ''run2/lna.s1p'']
     \<subseteq> fst ` set [(''run1/lna.s1p'', \<lparr>ntwk_f = [1], ntwk_s = [2]\<rparr>),
                    (''run2/lna.s1p'', \<lparr>ntwk_f = [3], ntwk_s = [4]\<rparr>)]
   \<and> load_s1p [(''run1/lna.s1p'', \<lparr>ntwk_f = [1], ntwk_s = [2]\<rparr>),
               (''run2/lna.s1p'', \<lparr>ntwk_f = [3], ntwk_s = [4]\<rparr>)]
        [''run1/lna.s1p'', ''run2/lna.s1p''] None
      = Inr [(''lna.s1p'', \<lparr>ntwk_f = [3], ntwk_s = [4]\<rparr>)]
   \<and> CHR ''/'' \<notin> set ''lna.s1p''
   \<and> pbase (''run2'' @ CHR ''/'' # ''lna.s1p'') = ''lna.s1p''"
  using load_s1p_basename_last_wins
    [of "[''run1/lna.s1p'', ''run2/lna.s1p'']"
        "[(''run1/lna.s1p'', \<lparr>ntwk_f = [1], ntwk_s = [2]\<rparr>),
          (''run2/lna.s1p'', \<lparr>ntwk_f = [3], ntwk_s = [4]\<rparr>)]"
        "''lna.s1p''" "''run2''"]
  by (simp add: load_s1p_def rf_Network_def pbase_def)

text \<open>
  Claim C3, as stated, fails: with two files and one label the loader raises nothing and
  returns the mapping of the first file under the one label; the second file is dropped.
\<close>

theorem load_s1p_label_mismatch_counterexample:
  "load_s1p [(''a.s1p'', \<lparr>ntwk_f = [1], ntwk_s = [2]\<rparr>),
             (''b.s1p'', \<lparr>ntwk_f = [3], ntwk_s = [4]\<rparr>)]
      [''a.s1p'', ''b.s1p''] (Some [''x''])
   = Inr [(''x'', \<lparr>ntwk_f = [1], ntwk_s = [2]\<rparr>)]"
  by (simp add: load_s1p_def rf_Network_def)

lemma update_fresh: "k \<notin> fst ` set al \<Longrightarrow> AList.update k v al = al @ [(k, v)]"
  by (induction al) auto

lemma load_entries_fresh_labels:
  "fst ` set ps \<subseteq> dom (map_of fs) \<Longrightarrow> distinct (map snd ps) \<Longrightarrow>
   snd ` set ps \<inter> fst ` set d = {} \<Longrightarrow>
   load_entries fs ps d = Inr (d @ map (\<lambda>(path, label). (label, the (map_of fs path))) ps)"
proof (induction ps arbitrary: d)
  case Nil
  then show ?case by simp
next
  case (Cons p ps)
  obtain path label where p: "p = (path, label)" by (cases p)
  from Cons.prems(1) obtain n where n: "map_of fs path = Some n"
    unfolding p by auto
  have fresh: "label \<notin> fst ` set d"
    using Cons.prems(3) unfolding p by auto
  have upd: "AList.update label n d = d @ [(label, n)]"
    using fresh by (rule update_fresh)
  have a: "fst ` set ps \<subseteq> dom (map_of fs)"
    using Cons.prems(1) by auto
  have b: "distinct (map snd ps)"
    using Cons.prems(2) by simp
  have c: "snd ` set ps \<inter> fst ` set (d @ [(label, n)]) = {}"
    using Cons.prems(2,3) unfolding p by auto
  have "load_entries fs (p # ps) d = load_entries fs ps (d @ [(label, n)])"
    unfolding p by (simp add: rf_Network_def n upd)
  also have "\<dots> = Inr ((d @ [(label, n)])
                        @ map (\<lambda>(path, label). (label, the (map_of fs path))) ps)"
    by (rule Cons.IH[OF a b c])
  finally show ?case unfolding p by (simp add: n)
qed

lemma load_entries_fails:
  "\<not> fst ` set ps \<subseteq> dom (map_of fs) \<Longrightarrow> load_entries fs ps d = Inl FileFormatError"
proof (induction ps arbitrary: d)
  case Nil
  then show ?case by simp
next
  case (Cons p ps)
  obtain path label where p: "p = (path, label)" by (cases p)
  show ?case
  proof (cases "map_of fs path")
    case None
    then show ?thesis unfolding p by (simp add: rf_Network_def)
  next
    case (Some n)
    then have "\<not> fst ` set ps \<subseteq> dom (map_of fs)"
      using Cons.prems unfolding p by auto
    then have "load_entries fs ps (AList.update label n d) = Inl FileFormatError"
      by (rule Cons.IH)
    then show ?thesis unfolding p by (simp add: rf_Network_def Some)
  qed
qed

lemma zip_swap_map:
  "length xs = length ys \<Longrightarrow>
   map (\<lambda>(x, y). (y, g x)) (zip xs ys) = zip ys (map g xs)"
  by (induction xs ys rule: list_induct2) auto

lemma zip_by_index:
  "n = min (length xs) (length ys) \<Longrightarrow>
   map (\<lambda>(x, y). (y, g x)) (zip xs ys) = map (\<lambda>j. (ys ! j, g (xs ! j))) [0..<n]"
  by (rule nth_equalityI) auto

text \<open>
  Claim C3, amended. For every file list and every supplied label list, of equal length or
  not, the loader never fails with a LengthMismatchError. With \<open>n\<close> the length of the shorter
  list, it reads the first \<open>n\<close> files in order and stores the response of the \<open>i\<close>-th file
  under the \<open>i\<close>-th label, a later file replacing an earlier one under a repeated label;
  with \<open>n\<close> different labels the result is exactly those \<open>n\<close> pairs in order. The entries of
  the longer list beyond \<open>n\<close> are dropped unread, and the loader fails, with the error of
  the file, exactly when one of the first \<open>n\<close> files does not load.
\<close>

theorem load_s1p_labels_truncate:
  assumes n: "n = min (length files) (length labels)"
  shows "load_s1p fs files (Some labels) \<noteq> Inl LengthMismatchError
   \<and> load_s1p fs files (Some labels) = load_s1p fs (take n files) (Some (take n labels))
   \<and> (set (take n files) \<subseteq> fst ` set fs \<longrightarrow>
        (\<exists>d. load_s1p fs files (Some labels) = Inr d
           \<and> distinct (map fst d)
           \<and> set (map fst d) = set (take n labels)
           \<and> (\<forall>i < n. map_of d (labels ! i)
                  = map_of fs (files ! last (filter (\<lambda>j. labels ! j = labels ! i) [0..<n])))))
   \<and> (set (take n files) \<subseteq> fst ` set fs \<and> distinct (take n labels) \<longrightarrow>
        load_s1p fs files (Some labels)
          = Inr (zip (take n labels) (map (\<lambda>path. the (map_of fs path)) (take n files))))
   \<and> (\<not> set (take n files) \<subseteq> fst ` set fs \<longrightarrow>
        load_s1p fs files (Some labels) = Inl FileFormatError)"
proof -
  let ?ps = "zip files labels"
  let ?g = "\<lambda>path. the (map_of fs path)"
  have run: "load_s1p fs files (Some labels) = load_entries fs ?ps []"
    by (simp add: load_s1p_def)
  have zip_take: "zip (take n files) (take n labels) = ?ps"
    unfolding n by (simp add: take_zip[symmetric])
  have fsts: "map fst ?ps = take n files" and snds: "map snd ?ps = take n labels"
    unfolding n by (simp_all only: map_fst_zip_take map_snd_zip_take)
  have set_fst: "fst ` set ?ps = set (take n files)"
    using fsts by (metis set_map)
  have set_snd: "snd ` set ?ps = set (take n labels)"
    using snds by (metis set_map)
  have c1: "load_s1p fs files (Some labels) \<noteq> Inl LengthMismatchError"
    unfolding run by (rule load_entries_not_length_mismatch)
  have c2: "load_s1p fs files (Some labels) = load_s1p fs (take n files) (Some (take n labels))"
    by (simp add: load_s1p_def zip_take)
  have c3: "\<exists>d. load_s1p fs files (Some labels) = Inr d
           \<and> distinct (map fst d)
           \<and> set (map fst d) = set (take n labels)
           \<and> (\<forall>i < n. map_of d (labels ! i)
                  = map_of fs (files ! last (filter (\<lambda>j. labels ! j = labels ! i) [0..<n])))"
    if loads: "set (take n files) \<subseteq> fst ` set fs"
  proof -
    have inside: "set (take n files) \<subseteq> dom (map_of fs)"
      using loads by (simp add: dom_map_of_conv_image_fst)
    then have "fst ` set ?ps \<subseteq> dom (map_of fs)"
      by (simp only: set_fst)
    then obtain d where d: "load_entries fs ?ps [] = Inr d"
      using load_entries_total by blast
    have keys: "distinct (map fst d) \<and> set (map fst d) = set (take n labels)"
      using load_entries_keys[OF d] by (simp add: set_snd)
    have m: "map_of d = map_of (rev (map (\<lambda>j. (labels ! j, ?g (files ! j))) [0..<n]))"
      using load_entries_map_of[OF d] by (simp add: zip_by_index[OF n])
    have vals: "map_of d (labels ! i)
                  = map_of fs (files ! last (filter (\<lambda>j. labels ! j = labels ! i) [0..<n]))"
      if i: "i < n" for i
    proof -
      let ?J = "last (filter (\<lambda>j. labels ! j = labels ! i) [0..<n])"
      have mem: "i \<in> set [0..<n]" using i by simp
      then have "filter (\<lambda>j. labels ! j = labels ! i) [0..<n] \<noteq> []"
        by (auto simp: filter_empty_conv)
      then have "?J \<in> set (filter (\<lambda>j. labels ! j = labels ! i) [0..<n])"
        by (rule last_in_set)
      then have J: "?J < n" by simp
      have nle: "n \<le> length files" using n by simp
      have "take n files ! ?J = files ! ?J" using J by simp
      moreover have "?J < length (take n files)" using J nle by simp
      ultimately have "files ! ?J \<in> set (take n files)" by (metis nth_mem)
      then have "files ! ?J \<in> dom (map_of fs)" using inside by blast
      then obtain v where v: "map_of fs (files ! ?J) = Some v" by auto
      have "map_of d (labels ! i) = Some (?g (files ! ?J))"
        unfolding m
        using map_of_rev_last[OF mem, of "\<lambda>j. labels ! j" "\<lambda>j. ?g (files ! j)"] by simp
      also have "\<dots> = Some v" by (simp add: v)
      finally show ?thesis by (simp only: v)
    qed
    show ?thesis
      unfolding run d using keys vals by (intro exI[of _ d] conjI allI impI) simp_all
  qed
  have c4: "load_s1p fs files (Some labels)
              = Inr (zip (take n labels) (map ?g (take n files)))"
    if loads: "set (take n files) \<subseteq> fst ` set fs" and dist: "distinct (take n labels)"
  proof -
    have a: "fst ` set ?ps \<subseteq> dom (map_of fs)"
      using loads by (simp add: set_fst dom_map_of_conv_image_fst)
    have b: "distinct (map snd ?ps)"
      using dist by (simp only: snds)
    have len: "length (take n files) = length (take n labels)"
      unfolding n by simp
    have "load_entries fs ?ps [] = Inr ([] @ map (\<lambda>(path, label). (label, ?g path)) ?ps)"
      by (rule load_entries_fresh_labels[OF a b]) simp
    also have "map (\<lambda>(path, label). (label, ?g path)) ?ps
                 = zip (take n labels) (map ?g (take n files))"
      unfolding zip_take[symmetric] by (rule zip_swap_map[OF len])
    finally show ?thesis unfolding run by simp
  qed
  have c5: "load_s1p fs files (Some labels) = Inl FileFormatError"
    if "\<not> set (take n files) \<subseteq> fst ` set fs"
  proof -
    have "\<not> fst ` set ?ps \<subseteq> dom (map_of fs)"
      using that by (simp add: set_fst dom_map_of_conv_image_fst)
    then show ?thesis unfolding run by (rule load_entries_fails)
  qed
  show ?thesis
    apply (intro conjI impI)
        apply (rule c1)
       apply (rule c2)
      apply (erule c3)
     apply (erule conjE, erule (1) c4)
    apply (erule c5)
    done
qed

text \<open>
  Three files and two labels: the two first files are stored under the two labels and the
  third, which would not even load, is never read. Two files under one repeated label: the
  second replaces the first. A first file that does not load: the loader fails with its
  error.
\<close>

theorem load_s1p_labels_truncate_witness:
  "(2::nat) = min (length [''a.s1p'', ''b.s1p'', ''missing.s1p'']) (length [''x'', ''y''])
   \<and> load_s1p [(''a.s1p'', \<lparr>ntwk_f = [1], ntwk_s = [2]\<rparr>),
               (''b.s1p'', \<lparr>ntwk_f = [3], ntwk_s = [4]\<rparr>)]
        [''a.s1p'', ''b.s1p'', ''missing.s1p''] (Some [''x'', ''y''])
      = Inr [(''x'', \<lparr>ntwk_f = [1], ntwk_s = [2]\<rparr>), (''y'', \<lparr>ntwk_f = [3], ntwk_s = [4]\<rparr>)]
   \<and> load_s1p [(''a.s1p'', \<lparr>ntwk_f = [1], ntwk_s = [2]\<rparr>),
               (''b.s1p'', \<lparr>ntwk_f = [3], ntwk_s = [4]\<rparr>)]
        [''a.s1p'', ''b.s1p''] (Some [''x'', ''x'', ''z''])
      = Inr [(''x'', \<lparr>ntwk_f = [3], ntwk_s = [4]\<rparr>)]
   \<and> load_s1p [(''a.s1p'', \<lparr>ntwk_f = [1], ntwk_s = [2]\<rparr>),
               (''b.s1p'', \<lparr>ntwk_f = [3], ntwk_s = [4]\<rparr>)]
        [''missing.s1p'', ''b.s1p''] (Some [''x''])
      = Inl FileFormatError"
  using load_s1p_labels_truncate
    [of 2 "[''a.s1p'', ''b.s1p'', ''missing.s1p'']" "[''x'', ''y'']"
        "[(''a.s1p'', \<lparr>ntwk_f = [1], ntwk_s = [2]\<rparr>), (''b.s1p'', \<lparr>ntwk_f = [3], ntwk_s = [4]\<rparr>)]"]
    load_s1p_labels_truncate
    [of 1 "[''missing.s1p'', ''b.s1p'']" "[''x'']"
        "[(''a.s1p'', \<lparr>ntwk_f = [1], ntwk_s = [2]\<rparr>), (''b.s1p'', \<lparr>ntwk_f = [3], ntwk_s = [4]\<rparr>)]"]
  by (simp add: load_s1p_def rf_Network_def)

section \<open>Properties of \<open>LNA_total_reflection\<close> and of the fitters\<close>

lemma np_broadcast_same_length:
  "length xs = length ys \<Longrightarrow> np_broadcast opr xs ys = Inr (map2 opr xs ys)"
  by (simp add: np_broadcast_def)

text \<open>
  Claim C1. For two responses with equally many points (as two responses on the same
  frequency grid have), \<open>LNA_total_reflection\<close> returns a response on the frequency grid of
  \<open>rho_cable\<close> whose value at every index \<open>i\<close> is
  \<open>rho_cable[i] / (1 - rho_cable[i] * rho_LNA[i])\<close>, and is \<open>rho_cable[i]\<close> itself where
  \<open>rho_LNA[i] = 0\<close>.
\<close>

theorem LNA_total_reflection_pointwise:
  assumes "length (ntwk_s rho_cable) = length (ntwk_s rho_LNA)"
  shows "\<exists>r. LNA_total_reflection rho_cable rho_LNA = Inr r
           \<and> ntwk_f r = ntwk_f rho_cable
           \<and> length (ntwk_s r) = length (ntwk_s rho_cable)
           \<and> (\<forall>i < length (ntwk_s rho_cable).
                 ntwk_s r ! i
                   = ntwk_s rho_cable ! i / (1 - ntwk_s rho_cable ! i * ntwk_s rho_LNA ! i)
                 \<and> (ntwk_s rho_LNA ! i = 0 \<longrightarrow> ntwk_s r ! i = ntwk_s rho_cable ! i))"
proof -
  let ?c = "ntwk_s rho_cable" and ?l = "ntwk_s rho_LNA"
  let ?den = "map (\<lambda>p. 1 - p) (map2 (\<lambda>c l. c * l) ?c ?l)"
  let ?a = "map2 (\<lambda>n d. n / d) (map (\<lambda>c. c * 1) ?c) ?den"
  have len: "length (map (\<lambda>c. c * 1) ?c) = length ?den"
    using assms by simp
  have res: "LNA_total_reflection rho_cable rho_LNA
               = Inr \<lparr>ntwk_f = ntwk_f rho_cable, ntwk_s = ?a\<rparr>"
    unfolding LNA_total_reflection_def Let_def
    by (simp only: np_broadcast_same_length[OF assms] np_broadcast_same_length[OF len] sum.case)
  have pt: "?a ! i = ?c ! i / (1 - ?c ! i * ?l ! i)" if "i < length ?c" for i
    using that assms by simp
  show ?thesis
    using res pt assms by (intro exI[of _ "\<lparr>ntwk_f = ntwk_f rho_cable, ntwk_s = ?a\<rparr>"]) simp
qed

theorem LNA_total_reflection_pointwise_witness:
  "length (ntwk_s \<lparr>ntwk_f = [1000000, 2000000], ntwk_s = [1 / 2, \<i>]\<rparr>)
     = length (ntwk_s \<lparr>ntwk_f = [1000000, 2000000], ntwk_s = [0, 1 / 2]\<rparr>)
   \<and> LNA_total_reflection \<lparr>ntwk_f = [1000000, 2000000], ntwk_s = [1 / 2, \<i>]\<rparr>
                           \<lparr>ntwk_f = [1000000, 2000000], ntwk_s = [0, 1 / 2]\<rparr>
       = Inr \<lparr>ntwk_f = [1000000, 2000000], ntwk_s = [1 / 2, \<i> / (1 - \<i> * (1 / 2))]\<rparr>"
  using LNA_total_reflection_pointwise
    [of "\<lparr>ntwk_f = [1000000, 2000000], ntwk_s = [1 / 2, \<i>]\<rparr>"
        "\<lparr>ntwk_f = [1000000, 2000000], ntwk_s = [0, 1 / 2]\<rparr>"]
  by (simp add: LNA_total_reflection_def np_broadcast_def)

lemma delay_point:
  "A * exp (\<i> * 2 * complex_of_real pi * complex_of_real x * complex_of_real td)
   = spec_delay_model A td x"
  by (simp add: spec_delay_model_def mult.assoc)

lemma decay_point_model:
  "complex_of_real (exp (- al * x)) * A
     * exp (\<i> * 2 * complex_of_real pi * complex_of_real x * complex_of_real td)
   = spec_decay_model A td al x"
  by (simp add: spec_decay_model_def mult.assoc mult.left_commute)

lemma decay_point_synth:
  "A * complex_of_real (exp (- al * x))
     * exp (\<i> * 2 * complex_of_real pi * complex_of_real x * complex_of_real td)
   = spec_decay_model A td al x"
  by (simp add: spec_decay_model_def mult.assoc)

lemma reflection_model_delay_spec:
  "reflection_model_delay freq ar ai td
     = map Re (map (spec_delay_model (Complex ar ai) td) freq)
       @ map Im (map (spec_delay_model (Complex ar ai) td) freq)"
  unfolding reflection_model_delay_def Let_def delay_point Complex_eq[symmetric] ..

lemma reflection_model_decay_spec:
  "reflection_model_decay freq ar ai td al
     = map Re (map (spec_decay_model (Complex ar ai) td al) freq)
       @ map Im (map (spec_decay_model (Complex ar ai) td al) freq)"
  unfolding reflection_model_decay_def Let_def decay_point_model Complex_eq[symmetric] ..

lemma save_fitted_cases:
  "save_fitted fitted None = Inr []"
  "save_fitted fitted (Some path) = Inl TypeError"
  by (simp_all add: save_fitted_def write_touchstone_def write_touchstone_keywords_def)

lemma fit_reflection_coeff_unfold:
  "fit_reflection_coeff curve_fit3 s1p_ntwk gr gi gd save_path
     = (case curve_fit3 reflection_model_delay (ntwk_f s1p_ntwk)
               (map Re (ntwk_s s1p_ntwk) @ map Im (ntwk_s s1p_ntwk)) (gr, gi, gd) of
          Inl e \<Rightarrow> Inl e
        | Inr (p0, p1, p2) \<Rightarrow>
            (case save_path of
               None \<Rightarrow>
                 Inr ((Complex p0 p1, p2,
                       \<lparr>ntwk_f = ntwk_f s1p_ntwk,
                        ntwk_s = map (spec_delay_model (Complex p0 p1) p2) (ntwk_f s1p_ntwk)\<rparr>),
                      [])
             | Some path \<Rightarrow> Inl TypeError))"
  unfolding fit_reflection_coeff_def gamma_meas_comb_def Let_def delay_point
    Complex_eq[symmetric]
  by (cases save_path) (simp_all add: save_fitted_cases split: sum.splits prod.splits)

lemma fit_exp_decay_unfold:
  "fit_exp_decay curve_fit4 s1p_ntwk gr gi gd ga save_path
     = (case curve_fit4 reflection_model_decay (ntwk_f s1p_ntwk)
               (map Re (ntwk_s s1p_ntwk) @ map Im (ntwk_s s1p_ntwk)) (gr, gi, gd, ga) of
          Inl e \<Rightarrow> Inl e
        | Inr (p0, p1, p2, p3) \<Rightarrow>
            (case save_path of
               None \<Rightarrow>
                 Inr ((Complex p0 p1, p2, p3,
                       \<lparr>ntwk_f = ntwk_f s1p_ntwk,
                        ntwk_s = map (spec_decay_model (Complex p0 p1) p2 p3) (ntwk_f s1p_ntwk)\<rparr>),
                      [])
             | Some path \<Rightarrow> Inl TypeError))"
  unfolding fit_exp_decay_def gamma_meas_comb_def Let_def decay_point_synth
    Complex_eq[symmetric]
  by (cases save_path) (simp_all add: save_fitted_cases split: sum.splits prod.splits)

text \<open>
  Claim C2. Each fitter hands the solver the model function, the frequency points of its
  input, the real parts followed by the imaginary parts of the measured spectrum, and the
  initial guess. The model function returns the real parts followed by the imaginary parts
  of the specification's model (\<open>A * exp(i*2*pi*f*tau)\<close>, times \<open>exp(-alpha*f)\<close> for the decay
  variant) at the frequencies it is given. When the solver fails the fitter fails with the
  same error. When the solver returns parameters and no save path is given, the fitter
  returns them together with the specification's model evaluated at those parameters on
  the input's frequency grid; so every response a fitter returns is that one. (With a save
  path the fitter returns no response: the call of \<open>write_touchstone\<close> raises.)
\<close>

theorem fitters_residual_and_synthesis:
  "map_sum id fst (fit_reflection_coeff curve_fit3 s1p_ntwk gr gi gd save_path)
     = (case curve_fit3
               (\<lambda>freq ar ai td. map Re (map (spec_delay_model (Complex ar ai) td) freq)
                                 @ map Im (map (spec_delay_model (Complex ar ai) td) freq))
               (ntwk_f s1p_ntwk)
               (map Re (ntwk_s s1p_ntwk) @ map Im (ntwk_s s1p_ntwk))
               (gr, gi, gd) of
          Inl e \<Rightarrow> Inl e
        | Inr (p0, p1, p2) \<Rightarrow>
            (case save_path of
               None \<Rightarrow>
                 Inr (Complex p0 p1, p2,
                      \<lparr>ntwk_f = ntwk_f s1p_ntwk,
                       ntwk_s = map (spec_delay_model (Complex p0 p1) p2) (ntwk_f s1p_ntwk)\<rparr>)
             | Some path \<Rightarrow> Inl TypeError))
   \<and> map_sum id fst (fit_exp_decay curve_fit4 s1p_ntwk gr gi gd ga save_path)
     = (case curve_fit4
               (\<lambda>freq ar ai td al. map Re (map (spec_decay_model (Complex ar ai) td al) freq)
                                    @ map Im (map (spec_decay_model (Complex ar ai) td al) freq))
               (ntwk_f s1p_ntwk)
               (map Re (ntwk_s s1p_ntwk) @ map Im (ntwk_s s1p_ntwk))
               (gr, gi, gd, ga) of
          Inl e \<Rightarrow> Inl e
        | Inr (p0, p1, p2, p3) \<Rightarrow>
            (case save_path of
               None \<Rightarrow>
                 Inr (Complex p0 p1, p2, p3,
                      \<lparr>ntwk_f = ntwk_f s1p_ntwk,
                       ntwk_s = map (spec_decay_model (Complex p0 p1) p2 p3) (ntwk_f s1p_ntwk)\<rparr>)
             | Some path \<Rightarrow> Inl TypeError))"
proof -
  have m3: "reflection_model_delay
              = (\<lambda>freq ar ai td. map Re (map (spec_delay_model (Complex ar ai) td) freq)
                                 @ map Im (map (spec_delay_model (Complex ar ai) td) freq))"
    by (intro ext) (rule reflection_model_delay_spec)
  have m4: "reflection_model_decay
              = (\<lambda>freq ar ai td al. map Re (map (spec_decay_model (Complex ar ai) td al) freq)
                                    @ map Im (map (spec_decay_model (Complex ar ai) td al) freq))"
    by (intro ext) (rule reflection_model_decay_spec)
  have a: "map_sum id fst (fit_reflection_coeff curve_fit3 s1p_ntwk gr gi gd save_path)
     = (case curve_fit3 reflection_model_delay (ntwk_f s1p_ntwk)
               (map Re (ntwk_s s1p_ntwk) @ map Im (ntwk_s s1p_ntwk)) (gr, gi, gd) of
          Inl e \<Rightarrow> Inl e
        | Inr (p0, p1, p2) \<Rightarrow>
            (case save_path of
               None \<Rightarrow>
                 Inr (Complex p0 p1, p2,
                      \<lparr>ntwk_f = ntwk_f s1p_ntwk,
                       ntwk_s = map (spec_delay_model (Complex p0 p1) p2) (ntwk_f s1p_ntwk)\<rparr>)
             | Some path \<Rightarrow> Inl TypeError))"
    unfolding fit_reflection_coeff_unfold
    by (cases save_path) (simp_all split: sum.splits prod.splits)
  have b: "map_sum id fst (fit_exp_decay curve_fit4 s1p_ntwk gr gi gd ga save_path)
     = (case curve_fit4 reflection_model_decay (ntwk_f s1p_ntwk)
               (map Re (ntwk_s s1p_ntwk) @ map Im (ntwk_s s1p_ntwk)) (gr, gi, gd, ga) of
          Inl e \<Rightarrow> Inl e
        | Inr (p0, p1, p2, p3) \<Rightarrow>
            (case save_path of
               None \<Rightarrow>
                 Inr (Complex p0 p1, p2, p3,
                      \<lparr>ntwk_f = ntwk_f s1p_ntwk,
                       ntwk_s = map (spec_decay_model (Complex p0 p1) p2 p3) (ntwk_f s1p_ntwk)\<rparr>)
             | Some path \<Rightarrow> Inl TypeError))"
    unfolding fit_exp_decay_unfold
    by (cases save_path) (simp_all split: sum.splits prod.splits)
  show ?thesis
    using a b unfolding m3 m4 by (rule conjI)
qed

lemma exp_quarter_turn: "exp (\<i> * complex_of_real pi / 2) = \<i>"
proof -
  have "cis (pi / 2) = exp (\<i> * complex_of_real (pi / 2))"
    by (rule cis_conv_exp)
  also have "\<i> * complex_of_real (pi / 2) = \<i> * complex_of_real pi / 2"
    by simp
  finally show ?thesis by simp
qed

text \<open>
  A two-point response at 1/4 Hz and 1/2 Hz with a solver that returns the amplitude
  \<open>1/2 - i/5\<close>, the delay of one second and (for the decay variant) the decay rate 2,
  whatever the guess: the returned responses are the amplitude turned by a quarter and by
  a half turn, damped by \<open>exp(-1/2)\<close> and \<open>exp(-1)\<close> in the decay variant. With a solver that
  fails, the fitter fails with the solver's error; with a save path it raises.
\<close>

theorem fitters_residual_and_synthesis_witness:
  "map_sum id fst
     (fit_reflection_coeff (\<lambda>m x y p. Inr (1 / 2, - 1 / 5, 1))
        \<lparr>ntwk_f = [1 / 4, 1 / 2], ntwk_s = [\<i>, 1]\<rparr> 1 0 0 None)
     = Inr (Complex (1 / 2) (- 1 / 5), 1,
            \<lparr>ntwk_f = [1 / 4, 1 / 2],
             ntwk_s = [Complex (1 / 2) (- 1 / 5) * \<i>, - Complex (1 / 2) (- 1 / 5)]\<rparr>)
   \<and> map_sum id fst
     (fit_exp_decay (\<lambda>m x y p. Inr (1 / 2, - 1 / 5, 1, 2))
        \<lparr>ntwk_f = [1 / 4, 1 / 2], ntwk_s = [\<i>, 1]\<rparr> 1 0 0 0 None)
     = Inr (Complex (1 / 2) (- 1 / 5), 1, 2,
            \<lparr>ntwk_f = [1 / 4, 1 / 2],
             ntwk_s = [Complex (1 / 2) (- 1 / 5) * complex_of_real (exp (- (1 / 2))) * \<i>,
                       - (Complex (1 / 2) (- 1 / 5) * complex_of_real (exp (- 1)))]\<rparr>)
   \<and> map_sum id fst
     (fit_reflection_coeff (\<lambda>m x y p. Inl FitConvergenceError)
        \<lparr>ntwk_f = [1 / 4, 1 / 2], ntwk_s = [\<i>, 1]\<rparr> 1 0 0 None)
     = Inl FitConvergenceError
   \<and> map_sum id fst
     (fit_exp_decay (\<lambda>m x y p. Inr (1 / 2, - 1 / 5, 1, 2))
        \<lparr>ntwk_f = [1 / 4, 1 / 2], ntwk_s = [\<i>, 1]\<rparr> 1 0 0 0 (Some ''fit.s1p''))
     = Inl TypeError"
  using fitters_residual_and_synthesis
    [of "\<lambda>m x y p. Inr (1 / 2, - 1 / 5, 1)" "\<lparr>ntwk_f = [1 / 4, 1 / 2], ntwk_s = [\<i>, 1]\<rparr>"
        1 0 0 None "\<lambda>m x y p. Inr (1 / 2, - 1 / 5, 1, 2)" 0]
    fitters_residual_and_synthesis
    [of "\<lambda>m x y p. Inl FitConvergenceError" "\<lparr>ntwk_f = [1 / 4, 1 / 2], ntwk_s = [\<i>, 1]\<rparr>"
        1 0 0 "Some ''fit.s1p''" "\<lambda>m x y p. Inr (1 / 2, - 1 / 5, 1, 2)" 0]
    fitters_residual_and_synthesis
    [of "\<lambda>m x y p. Inl FitConvergenceError" "\<lparr>ntwk_f = [1 / 4, 1 / 2], ntwk_s = [\<i>, 1]\<rparr>"
        1 0 0 None "\<lambda>m x y p. Inr (1 / 2, - 1 / 5, 1, 2)" 0]
  by (simp add: spec_delay_model_def spec_decay_model_def exp_quarter_turn)

text \<open>
  Claim C8: what the code does where the claim expects a file to be written. Both
  fitters end with \<open>write_touchstone(save_path, overwrite=True)\<close>, and \<open>write_touchstone\<close>
  has no keyword \<open>overwrite\<close>: with a save path, a fit that succeeded ends in a TypeError,
  nothing is written and nothing is returned. With no save path the fitters have no
  effect, as the claim says.
\<close>

theorem fitters_save_path_raises:
  "write_touchstone fitted path [''overwrite''] = Inl TypeError
   \<and> fit_exp_decay curve_fit4 s1p_ntwk gr gi gd ga (Some path)
     = (case curve_fit4 reflection_model_decay (ntwk_f s1p_ntwk) (gamma_meas_comb s1p_ntwk)
               (gr, gi, gd, ga) of
          Inl e \<Rightarrow> Inl e
        | Inr popt \<Rightarrow> Inl TypeError)
   \<and> fit_reflection_coeff curve_fit3 s1p_ntwk gr gi gd (Some path)
     = (case curve_fit3 reflection_model_delay (ntwk_f s1p_ntwk) (gamma_meas_comb s1p_ntwk)
               (gr, gi, gd) of
          Inl e \<Rightarrow> Inl e
        | Inr popt \<Rightarrow> Inl TypeError)
   \<and> map_sum id snd (fit_exp_decay curve_fit4 s1p_ntwk gr gi gd ga None)
     = (case curve_fit4 reflection_model_decay (ntwk_f s1p_ntwk) (gamma_meas_comb s1p_ntwk)
               (gr, gi, gd, ga) of
          Inl e \<Rightarrow> Inl e
        | Inr popt \<Rightarrow> Inr [])
   \<and> map_sum id snd (fit_reflection_coeff curve_fit3 s1p_ntwk gr gi gd None)
     = (case curve_fit3 reflection_model_delay (ntwk_f s1p_ntwk) (gamma_meas_comb s1p_ntwk)
               (gr, gi, gd) of
          Inl e \<Rightarrow> Inl e
        | Inr popt \<Rightarrow> Inr [])"
proof (intro conjI)
  show "write_touchstone fitted path [''overwrite''] = Inl TypeError"
    by (simp add: write_touchstone_def write_touchstone_keywords_def)
  show "fit_exp_decay curve_fit4 s1p_ntwk gr gi gd ga (Some path)
     = (case curve_fit4 reflection_model_decay (ntwk_f s1p_ntwk) (gamma_meas_comb s1p_ntwk)
               (gr, gi, gd, ga) of
          Inl e \<Rightarrow> Inl e
        | Inr popt \<Rightarrow> Inl TypeError)"
    unfolding fit_exp_decay_unfold gamma_meas_comb_def
    by (simp split: sum.splits prod.splits)
  show "fit_reflection_coeff curve_fit3 s1p_ntwk gr gi gd (Some path)
     = (case curve_fit3 reflection_model_delay (ntwk_f s1p_ntwk) (gamma_meas_comb s1p_ntwk)
               (gr, gi, gd) of
          Inl e \<Rightarrow> Inl e
        | Inr popt \<Rightarrow> Inl TypeError)"
    unfolding fit_reflection_coeff_unfold gamma_meas_comb_def
    by (simp split: sum.splits prod.splits)
  show "map_sum id snd (fit_exp_decay curve_fit4 s1p_ntwk gr gi gd ga None)
     = (case curve_fit4 reflection_model_decay (ntwk_f s1p_ntwk) (gamma_meas_comb s1p_ntwk)
               (gr, gi, gd, ga) of
          Inl e \<Rightarrow> Inl e
        | Inr popt \<Rightarrow> Inr [])"
    unfolding fit_exp_decay_unfold gamma_meas_comb_def
    by (simp split: sum.splits prod.splits)
  show "map_sum id snd (fit_reflection_coeff curve_fit3 s1p_ntwk gr gi gd None)
     = (case curve_fit3 reflection_model_delay (ntwk_f s1p_ntwk) (gamma_meas_comb s1p_ntwk)
               (gr, gi, gd) of
          Inl e \<Rightarrow> Inl e
        | Inr popt \<Rightarrow> Inr [])"
    unfolding fit_reflection_coeff_unfold gamma_meas_comb_def
    by (simp split: sum.splits prod.splits)
qed

text \<open>
  The delay fit of a response on which the solver succeeds, asked to save to \<open>fit.s1p\<close>:
  TypeError. The same fit with no save path returns and has no effect.
\<close>

theorem fitters_save_path_raises_witness:
  "fit_reflection_coeff (\<lambda>m x y p. Inr (1 / 2, - 1 / 5, 1))
       \<lparr>ntwk_f = [1 / 4, 1 / 2], ntwk_s = [\<i>, 1]\<rparr> (1 / 2) (- 1 / 5) 1 (Some ''fit.s1p'')
     = Inl TypeError
   \<and> fit_exp_decay (\<lambda>m x y p. Inr (1 / 2, - 1 / 5, 1, 2))
       \<lparr>ntwk_f = [1 / 4, 1 / 2], ntwk_s = [\<i>, 1]\<rparr> (1 / 2) (- 1 / 5) 1 2 (Some ''fit.s1p'')
     = Inl TypeError
   \<and> map_sum id snd
       (fit_reflection_coeff (\<lambda>m x y p. Inr (1 / 2, - 1 / 5, 1))
          \<lparr>ntwk_f = [1 / 4, 1 / 2], ntwk_s = [\<i>, 1]\<rparr> (1 / 2) (- 1 / 5) 1 None)
     = Inr []"
  using fitters_save_path_raises
    [of _ "''fit.s1p''" "\<lambda>m x y p. Inr (1 / 2, - 1 / 5, 1, 2)"
        "\<lparr>ntwk_f = [1 / 4, 1 / 2], ntwk_s = [\<i>, 1]\<rparr>" "1 / 2" "- 1 / 5" 1 2
        "\<lambda>m x y p. Inr (1 / 2, - 1 / 5, 1)"]
  by simp

section \<open>Properties of the plotting functions\<close>

lemma saved_figures_append: "saved_figures (xs @ ys) = saved_figures xs @ saved_figures ys"
  by (induction xs rule: saved_figures.induct) auto

lemma printed_append: "printed (xs @ ys) = printed xs @ printed ys"
  by (induction xs rule: printed.induct) auto

lemma ax_plot_Inr: "ax_plot ax x y l c = Inr ev \<Longrightarrow> ev = Plot ax x y l c"
  by (auto simp: ax_plot_def split: if_splits)

lemma ax_plot_Inl: "ax_plot ax x y l c = Inl e \<Longrightarrow> e = ShapeError"
  by (auto simp: ax_plot_def split: if_splits)

lemma np_broadcast_Inl: "np_broadcast opr xs ys = Inl e \<Longrightarrow> e = ShapeError"
  by (auto simp: np_broadcast_def split: if_splits)

lemma save_or_warn_no_path:
  "save_or_warn True None = [Print ''! Save path not entered.'']"
  "save_or_warn False sp = []"
  by (simp_all add: save_or_warn_def)

text \<open>
  The outcome of \<open>plot_measured_vs_fitted\<close> with the save step kept apart: either an error
  of the drawing, or the drawing's events followed by those of the save step and \<open>Show\<close>.
\<close>

lemma plot_measured_vs_fitted_split:
  "\<exists>r. \<forall>save_plot save_path.
     plot_measured_vs_fitted d scale save_plot save_path yl t
       = (case r of Inl e \<Rightarrow> Inl e
          | Inr body \<Rightarrow> Inr (body @ save_or_warn save_plot save_path @ [Show]))
     \<and> (case r of Inl e \<Rightarrow> (e = ArityError \<longleftrightarrow> length d \<noteq> 2) \<and> (e = ArityError \<or> e = ShapeError)
         | Inr body \<Rightarrow> length d = 2 \<and> saved_figures body = [] \<and> printed body = [])"
proof (cases "length d = 2")
  case False
  then show ?thesis
    by (intro exI[of _ "Inl ArityError"]) (simp add: plot_measured_vs_fitted_def)
next
  case True
  let ?keys = "map fst d"
  let ?m = "the (map_of d (?keys ! 0))" and ?f = "the (map_of d (?keys ! 1))"
  let ?x = "map (\<lambda>v. v / 1000000) (ntwk_f ?m)"
  let ?mm = "magnitude scale (ntwk_s ?m)" and ?mf = "magnitude scale (ntwk_s ?f)"
  show ?thesis
  proof (cases "np_broadcast (\<lambda>m t. m / t) ?mm ?mf")
    case (Inl e)
    then show ?thesis using True np_broadcast_Inl[OF Inl]
      by (intro exI[of _ "Inl ShapeError"]) (simp add: plot_measured_vs_fitted_def Let_def)
  next
    case ratio: (Inr ratio)
    show ?thesis
    proof (cases "ax_plot Ax_mag ?x ?mm (?keys ! 0) ''C0''")
      case (Inl e)
      then show ?thesis using True ratio ax_plot_Inl[OF Inl]
        by (intro exI[of _ "Inl ShapeError"]) (simp add: plot_measured_vs_fitted_def Let_def)
    next
      case p0: (Inr p0)
      show ?thesis
      proof (cases "ax_plot Ax_mag ?x ?mf (?keys ! 1) ''C1''")
        case (Inl e)
        then show ?thesis using True ratio p0 ax_plot_Inl[OF Inl]
          by (intro exI[of _ "Inl ShapeError"]) (simp add: plot_measured_vs_fitted_def Let_def)
      next
        case p1: (Inr p1)
        show ?thesis
        proof (cases "ax_plot Ax_ratio ?x (map (\<lambda>r. 1 / r) ratio) [] ''C2''")
          case (Inl e)
          then show ?thesis using True ratio p0 p1 ax_plot_Inl[OF Inl]
            by (intro exI[of _ "Inl ShapeError"]) (simp add: plot_measured_vs_fitted_def Let_def)
        next
          case p2: (Inr p2)
          let ?body = "[Subplots 0 2, p0, p1,
                     SetYLabel Ax_mag yl, Style ''ax_mag.legend'', Style ''ax_mag.grid'',
                     p2, AxHLine Ax_ratio 1,
                     SetYLabel Ax_ratio ''Fitted/Measured'', Style ''ax_ratio.set_xlabel'',
                     Style ''ax_ratio.grid'', Style ''ax_ratio.legend'',
                     Suptitle t, Style ''fig.tight_layout'']"
          show ?thesis using True ratio p0 p1 p2 ax_plot_Inr[OF p0] ax_plot_Inr[OF p1] ax_plot_Inr[OF p2]
            by (intro exI[of _ "Inr ?body"]) (simp add: plot_measured_vs_fitted_def Let_def)
        qed
      qed
    qed
  qed
qed


lemma s11_traces_quiet:
  "s11_traces cc scale ph idx d = Inr evs \<Longrightarrow> saved_figures evs = [] \<and> printed evs = []"
proof (induction cc scale ph idx d arbitrary: evs rule: s11_traces.induct)
  case (1 cc scale ph idx)
  then show ?case by simp
next
  case (2 cc scale ph idx label ntwk rest)
  from "2.prems" have ne: "cc \<noteq> []"
    by (auto simp: Let_def split: if_splits)
  from "2.prems" ne obtain tm tp later where
    tm: "ax_plot Ax_mag (map (\<lambda>v. v / 1000000) (ntwk_f ntwk)) (magnitude scale (ntwk_s ntwk))
           label (cc ! (idx mod length cc)) = Inr tm"
    and tp: "saved_figures tp = [] \<and> printed tp = []"
    and later: "s11_traces cc scale ph (Suc idx) rest = Inr later"
    and evs: "evs = tm # tp @ later"
    by (fastforce simp: Let_def dest!: ax_plot_Inr split: if_splits sum.splits)
  have "saved_figures later = [] \<and> printed later = []"
    using "2.IH"[OF refl refl refl refl refl ne refl tm _ later] "2.prems" ne tm later
    by (auto simp: Let_def split: if_splits sum.splits)
  then show ?case
    using evs tp ax_plot_Inr[OF tm] by (auto simp: saved_figures_append printed_append)
qed

lemma plot_s11_reflect_split:
  "plot_s11_reflect cc d scale save_plot ph save_path yl t
     = (case s11_traces cc scale ph 0 d of
          Inl e \<Rightarrow> Inl e
        | Inr traces \<Rightarrow>
            Inr (([Subplots 0 (if ph then 2 else 1)] @ traces
                  @ [SetYLabel Ax_mag yl, Style ''ax_mag.grid'', Style ''ax_mag.legend'']
                  @ (if ph
                     then [Style ''ax_phase.set_xlabel'', SetYLabel Ax_phase ''Phase [deg]'',
                           Style ''ax_phase.grid'', Style ''ax_phase.legend'']
                     else [Style ''ax_mag.set_xlabel''])
                  @ [Suptitle t, Style ''fig.tight_layout''])
                 @ save_or_warn save_plot save_path @ [Show]))"
  by (simp add: plot_s11_reflect_def Let_def split: sum.splits)

lemma smith_individual_saved:
  "saved_figures (concat (map (smith_individual True sfx) (enumerate n d)))
     = map (\<lambda>(fig, label, ntwk). (fig, sfx @ ''_smith_'' @ replace_spaces label @ ''.png''))
           (enumerate n d)"
  by (induction d arbitrary: n)
     (auto simp: smith_individual_def saved_figures_append Let_def)

lemma smith_individual_printed:
  "printed (concat (map (smith_individual sp sfx) (enumerate n d))) = []"
  by (induction d arbitrary: n) (auto simp: smith_individual_def printed_append Let_def)

lemma smith_traces_quiet:
  "saved_figures (map (\<lambda>(label, ntwk). PlotSmith 0 label ntwk) d) = []"
  "printed (map (\<lambda>(label, ntwk). PlotSmith 0 label ntwk) d) = []"
  by (induction d) auto

lemma plot_smith_chart_saved:
  "saved_figures (plot_smith_chart env d suffix True save_dir loc individual)
     = (0, pjoin (case save_dir of None \<Rightarrow> cwd env | Some dir \<Rightarrow> dir)
                 (replace_spaces suffix @ ''_smith_chart.png''))
       # (if individual
          then map (\<lambda>(fig, label, ntwk).
                      (fig, replace_spaces suffix @ ''_smith_'' @ replace_spaces label @ ''.png''))
                   (enumerate 1 d)
          else [])"
  by (simp add: plot_smith_chart_def Let_def saved_figures_append smith_traces_quiet
        smith_individual_saved)

lemma plot_smith_chart_printed:
  "printed (plot_smith_chart env d suffix sp save_dir loc individual) = []"
  by (simp add: plot_smith_chart_def Let_def printed_append smith_traces_quiet
        smith_individual_printed)

lemma ax_plot_same_length:
  "length x = length y \<Longrightarrow> ax_plot ax x y l c = Inr (Plot ax x y l c)"
  by (simp add: ax_plot_def)

text \<open>
  Claim C4. \<open>plot_measured_vs_fitted\<close> fails with the ArityError of its \<open>assert\<close> exactly
  when the collection does not have exactly two entries. With two entries (under distinct
  keys, as a dict has) a call that returns has drawn the first entry as the measured trace
  and the second as the fitted one: both against the frequencies of the first entry, under
  their own labels, and the lower panel shows the reciprocal of measured over fitted.
\<close>

theorem plot_measured_vs_fitted_arity:
  "(plot_measured_vs_fitted d scale save_plot save_path yl t = Inl ArityError \<longleftrightarrow> length d \<noteq> 2)
   \<and> (k0 \<noteq> k1
        \<and> plot_measured_vs_fitted [(k0, m), (k1, f)] scale save_plot save_path yl t = Inr evs
      \<longrightarrow> evs ! 1 = Plot Ax_mag (map (\<lambda>v. v / 1000000) (ntwk_f m))
                       (magnitude scale (ntwk_s m)) k0 ''C0''
        \<and> evs ! 2 = Plot Ax_mag (map (\<lambda>v. v / 1000000) (ntwk_f m))
                       (magnitude scale (ntwk_s f)) k1 ''C1''
        \<and> evs ! 6 = Plot Ax_ratio (map (\<lambda>v. v / 1000000) (ntwk_f m))
                       (map (\<lambda>r. 1 / r)
                          (map2 (\<lambda>a b. a / b) (magnitude scale (ntwk_s m))
                                                (magnitude scale (ntwk_s f)))) [] ''C2'')"
proof (intro conjI impI)
  obtain r where r: "\<forall>save_plot save_path.
     plot_measured_vs_fitted d scale save_plot save_path yl t
       = (case r of Inl e \<Rightarrow> Inl e
          | Inr body \<Rightarrow> Inr (body @ save_or_warn save_plot save_path @ [Show]))
     \<and> (case r of Inl e \<Rightarrow> (e = ArityError \<longleftrightarrow> length d \<noteq> 2) \<and> (e = ArityError \<or> e = ShapeError)
         | Inr body \<Rightarrow> length d = 2 \<and> saved_figures body = [] \<and> printed body = [])"
    using plot_measured_vs_fitted_split by blast
  show "plot_measured_vs_fitted d scale save_plot save_path yl t = Inl ArityError \<longleftrightarrow> length d \<noteq> 2"
    using r[rule_format, of save_plot save_path] by (cases r) auto
next
  assume a: "k0 \<noteq> k1
        \<and> plot_measured_vs_fitted [(k0, m), (k1, f)] scale save_plot save_path yl t = Inr evs"
  let ?x = "map (\<lambda>v. v / 1000000) (ntwk_f m)"
  let ?mm = "magnitude scale (ntwk_s m)" and ?mf = "magnitude scale (ntwk_s f)"
  from a have ne: "k0 \<noteq> k1"
    and run: "plot_measured_vs_fitted [(k0, m), (k1, f)] scale save_plot save_path yl t = Inr evs"
    by simp_all
  have unf: "plot_measured_vs_fitted [(k0, m), (k1, f)] scale save_plot save_path yl t
     = (case np_broadcast (\<lambda>m t. m / t) ?mm ?mf of
             Inl e \<Rightarrow> Inl e
           | Inr ratio \<Rightarrow>
         (case ax_plot Ax_mag ?x ?mm k0 ''C0'' of
             Inl e \<Rightarrow> Inl e
           | Inr trace_measured \<Rightarrow>
         (case ax_plot Ax_mag ?x ?mf k1 ''C1'' of
             Inl e \<Rightarrow> Inl e
           | Inr trace_fitted \<Rightarrow>
         (case ax_plot Ax_ratio ?x (map (\<lambda>r. 1 / r) ratio) [] ''C2'' of
             Inl e \<Rightarrow> Inl e
           | Inr trace_ratio \<Rightarrow>
               Inr ([Subplots 0 2, trace_measured, trace_fitted,
                     SetYLabel Ax_mag yl, Style ''ax_mag.legend'', Style ''ax_mag.grid'',
                     trace_ratio, AxHLine Ax_ratio 1,
                     SetYLabel Ax_ratio ''Fitted/Measured'', Style ''ax_ratio.set_xlabel'',
                     Style ''ax_ratio.grid'', Style ''ax_ratio.legend'',
                     Suptitle t, Style ''fig.tight_layout'']
                    @ save_or_warn save_plot save_path
                    @ [Show])))))"
    using ne by (simp add: plot_measured_vs_fitted_def Let_def cong: sum.case_cong)
  from run have l0: "length ?x = length ?mm" and l1: "length ?x = length ?mf"
    unfolding unf by (auto simp: ax_plot_def split: sum.splits if_splits)
  then have ratio: "np_broadcast (\<lambda>m t. m / t) ?mm ?mf = Inr (map2 (\<lambda>m t. m / t) ?mm ?mf)"
    by (simp add: np_broadcast_def)
  let ?inv = "map (\<lambda>r. 1 / r) (map2 (\<lambda>a b. a / b) ?mm ?mf)"
  have l2: "length ?x = length ?inv"
    using l0 l1 by simp
  have p2: "ax_plot Ax_ratio ?x ?inv [] ''C2'' = Inr (Plot Ax_ratio ?x ?inv [] ''C2'')"
    by (rule ax_plot_same_length[OF l2])
  have p0: "ax_plot Ax_mag ?x ?mm k0 ''C0'' = Inr (Plot Ax_mag ?x ?mm k0 ''C0'')"
    by (rule ax_plot_same_length[OF l0])
  have p1: "ax_plot Ax_mag ?x ?mf k1 ''C1'' = Inr (Plot Ax_mag ?x ?mf k1 ''C1'')"
    by (rule ax_plot_same_length[OF l1])
  from run have ev: "evs = [Subplots 0 2, Plot Ax_mag ?x ?mm k0 ''C0'', Plot Ax_mag ?x ?mf k1 ''C1'',
                     SetYLabel Ax_mag yl, Style ''ax_mag.legend'', Style ''ax_mag.grid'',
                     Plot Ax_ratio ?x ?inv [] ''C2'',
                     AxHLine Ax_ratio 1,
                     SetYLabel Ax_ratio ''Fitted/Measured'', Style ''ax_ratio.set_xlabel'',
                     Style ''ax_ratio.grid'', Style ''ax_ratio.legend'',
                     Suptitle t, Style ''fig.tight_layout'']
                    @ save_or_warn save_plot save_path @ [Show]"
    unfolding unf ratio sum.case p0 p1 p2 by simp
  show "evs ! 1 = Plot Ax_mag ?x ?mm k0 ''C0''" by (simp add: ev)
  show "evs ! 2 = Plot Ax_mag ?x ?mf k1 ''C1''" by (simp add: ev)
  show "evs ! 6 = Plot Ax_ratio ?x ?inv [] ''C2''"
    unfolding ev by simp
qed

text \<open>
  A two-entry collection is drawn, the same collection with a third entry is refused.
\<close>

theorem plot_measured_vs_fitted_arity_witness:
  "plot_measured_vs_fitted
       [(''measured'', \<lparr>ntwk_f = [1000000], ntwk_s = [1]\<rparr>),
        (''fitted'', \<lparr>ntwk_f = [1000000], ntwk_s = [2]\<rparr>)]
       ''linear'' False None ''Magnitude'' ''Measured vs Fitted Spectrum''
     = Inr [Subplots 0 2,
            Plot Ax_mag [1] [1] ''measured'' ''C0'',
            Plot Ax_mag [1] [2] ''fitted'' ''C1'',
            SetYLabel Ax_mag ''Magnitude'', Style ''ax_mag.legend'', Style ''ax_mag.grid'',
            Plot Ax_ratio [1] [2] [] ''C2'', AxHLine Ax_ratio 1,
            SetYLabel Ax_ratio ''Fitted/Measured'', Style ''ax_ratio.set_xlabel'',
            Style ''ax_ratio.grid'', Style ''ax_ratio.legend'',
            Suptitle ''Measured vs Fitted Spectrum'', Style ''fig.tight_layout'', Show]
   \<and> plot_measured_vs_fitted
       [(''measured'', \<lparr>ntwk_f = [1000000], ntwk_s = [1]\<rparr>),
        (''fitted'', \<lparr>ntwk_f = [1000000], ntwk_s = [2]\<rparr>),
        (''extra'', \<lparr>ntwk_f = [1000000], ntwk_s = [3]\<rparr>)]
       ''linear'' False None ''Magnitude'' ''Measured vs Fitted Spectrum''
     = Inl ArityError"
  using plot_measured_vs_fitted_arity
    [of "[(''measured'', \<lparr>ntwk_f = [1000000], ntwk_s = [1]\<rparr>),
          (''fitted'', \<lparr>ntwk_f = [1000000], ntwk_s = [2]\<rparr>),
          (''extra'', \<lparr>ntwk_f = [1000000], ntwk_s = [3]\<rparr>)]"
        "''linear''" False None "''Magnitude''" "''Measured vs Fitted Spectrum''"
        "''measured''" "''fitted''"
        "\<lparr>ntwk_f = [1000000], ntwk_s = [1]\<rparr>" "\<lparr>ntwk_f = [1000000], ntwk_s = [2]\<rparr>"]
  by (simp add: plot_measured_vs_fitted_def Let_def magnitude_def np_broadcast_def ax_plot_def
        save_or_warn_def)

text \<open>
  Claim C5, as stated, fails for \<open>plot_smith_chart\<close>: with the save flag set and no save
  directory it prints nothing and saves the chart into the current working directory.
\<close>

theorem save_without_path_counterexample:
  "plot_smith_chart \<lparr>cwd = ''/home/lab'', existing = {''/home/lab''}\<rparr>
       [(''LNA'', \<lparr>ntwk_f = [1000000], ntwk_s = [1]\<rparr>)] ''LNA'' True None ''best'' False
     = [Subplots 0 1, Style ''fig.set_size_inches'',
        PlotSmith 0 ''LNA'' \<lparr>ntwk_f = [1000000], ntwk_s = [1]\<rparr>,
        SetTitle 0 ''LNA Smith Chart'', Style ''ax.legend'', Style ''plt.tight_layout'',
        SaveFig 0 ''/home/lab/LNA_smith_chart.png'', Show]"
  by (simp add: plot_smith_chart_def Let_def replace_spaces_def pjoin_def)

text \<open>
  Claim C5, amended. With the save flag set and no save path, \<open>plot_measured_vs_fitted\<close>
  and \<open>plot_s11_reflect\<close>, whenever they return, have printed the one line
  \<open>! Save path not entered.\<close> and saved no figure; they fail exactly when the same call
  with the save flag off fails, so the save step adds no error to those of the drawing.
  \<open>plot_smith_chart\<close> with the save flag set and no save directory never prints: it saves
  the combined chart as \<open>join(os.getcwd(), suffix' + '_smith_chart.png')\<close>, \<open>suffix'\<close> being
  the suffix with spaces replaced by underscores, and the per-trace charts when asked to.
\<close>

theorem save_without_path:
  "(plot_measured_vs_fitted d scale True None yl t = Inr evs
      \<longrightarrow> printed evs = [''! Save path not entered.''] \<and> saved_figures evs = [])
   \<and> (plot_measured_vs_fitted d scale True None yl t = Inl e
        \<longleftrightarrow> plot_measured_vs_fitted d scale False None yl t = Inl e)
   \<and> (plot_s11_reflect cc d scale True ph None yl t = Inr evs'
      \<longrightarrow> printed evs' = [''! Save path not entered.''] \<and> saved_figures evs' = [])
   \<and> (plot_s11_reflect cc d scale True ph None yl t = Inl e
        \<longleftrightarrow> plot_s11_reflect cc d scale False ph None yl t = Inl e)
   \<and> printed (plot_smith_chart env d suffix True None loc individual) = []
   \<and> saved_figures (plot_smith_chart env d suffix True None loc individual)
       = (0, pjoin (cwd env) (replace_spaces suffix @ ''_smith_chart.png''))
         # (if individual
            then map (\<lambda>(fig, label, ntwk).
                        (fig, replace_spaces suffix @ ''_smith_'' @ replace_spaces label @ ''.png''))
                     (enumerate 1 d)
            else [])"
proof -
  obtain r where r: "\<forall>save_plot save_path.
     plot_measured_vs_fitted d scale save_plot save_path yl t
       = (case r of Inl e \<Rightarrow> Inl e
          | Inr body \<Rightarrow> Inr (body @ save_or_warn save_plot save_path @ [Show]))
     \<and> (case r of Inl e \<Rightarrow> (e = ArityError \<longleftrightarrow> length d \<noteq> 2) \<and> (e = ArityError \<or> e = ShapeError)
         | Inr body \<Rightarrow> length d = 2 \<and> saved_figures body = [] \<and> printed body = [])"
    using plot_measured_vs_fitted_split by blast
  have a: "plot_measured_vs_fitted d scale True None yl t = Inr evs
      \<longrightarrow> printed evs = [''! Save path not entered.''] \<and> saved_figures evs = []"
    using r[rule_format, of True None]
    by (cases r) (auto simp: save_or_warn_no_path printed_append saved_figures_append)
  have b: "plot_measured_vs_fitted d scale True None yl t = Inl e
        \<longleftrightarrow> plot_measured_vs_fitted d scale False None yl t = Inl e"
    using r[rule_format, of True None] r[rule_format, of False None] by (cases r) auto
  have c: "plot_s11_reflect cc d scale True ph None yl t = Inr evs'
      \<longrightarrow> printed evs' = [''! Save path not entered.''] \<and> saved_figures evs' = []"
    unfolding plot_s11_reflect_split
    by (auto simp: save_or_warn_no_path printed_append saved_figures_append
          dest: s11_traces_quiet split: sum.splits)
  have d: "plot_s11_reflect cc d scale True ph None yl t = Inl e
        \<longleftrightarrow> plot_s11_reflect cc d scale False ph None yl t = Inl e"
    unfolding plot_s11_reflect_split by (auto split: sum.splits)
  show ?thesis
    using a b c d plot_smith_chart_printed[of env d suffix True None loc individual]
      plot_smith_chart_saved[of env d suffix None loc individual]
    by simp
qed

text \<open>
  Both two-panel calls at a concrete input, with the warning as their last event before
  \<open>Show\<close>.
\<close>

theorem save_without_path_witness:
  "plot_measured_vs_fitted
       [(''measured'', \<lparr>ntwk_f = [1000000], ntwk_s = [1]\<rparr>),
        (''fitted'', \<lparr>ntwk_f = [1000000], ntwk_s = [2]\<rparr>)]
       ''linear'' True None ''Magnitude'' ''Measured vs Fitted Spectrum''
     = Inr [Subplots 0 2,
            Plot Ax_mag [1] [1] ''measured'' ''C0'',
            Plot Ax_mag [1] [2] ''fitted'' ''C1'',
            SetYLabel Ax_mag ''Magnitude'', Style ''ax_mag.legend'', Style ''ax_mag.grid'',
            Plot Ax_ratio [1] [2] [] ''C2'', AxHLine Ax_ratio 1,
            SetYLabel Ax_ratio ''Fitted/Measured'', Style ''ax_ratio.set_xlabel'',
            Style ''ax_ratio.grid'', Style ''ax_ratio.legend'',
            Suptitle ''Measured vs Fitted Spectrum'', Style ''fig.tight_layout'',
            Print ''! Save path not entered.'', Show]
   \<and> plot_s11_reflect [''C0'', ''C1'']
       [(''measured'', \<lparr>ntwk_f = [1000000], ntwk_s = [1]\<rparr>),
        (''fitted'', \<lparr>ntwk_f = [1000000], ntwk_s = [2]\<rparr>)]
       ''linear'' True False None ''Magnitude'' ''Measured vs Fitted Spectrum''
     = Inr [Subplots 0 1, Plot Ax_mag [1] [1] ''measured'' ''C0'',
            Plot Ax_mag [1] [2] ''fitted'' ''C1'',
            SetYLabel Ax_mag ''Magnitude'', Style ''ax_mag.grid'', Style ''ax_mag.legend'',
            Style ''ax_mag.set_xlabel'',
            Suptitle ''Measured vs Fitted Spectrum'', Style ''fig.tight_layout'',
            Print ''! Save path not entered.'', Show]"
  using save_without_path
    [of "[(''measured'', \<lparr>ntwk_f = [1000000], ntwk_s = [1]\<rparr>),
          (''fitted'', \<lparr>ntwk_f = [1000000], ntwk_s = [2]\<rparr>)]"
        "''linear''" "''Magnitude''" "''Measured vs Fitted Spectrum''" _ _ "[''C0'', ''C1'']" False]
  by (simp add: plot_measured_vs_fitted_def plot_s11_reflect_def Let_def magnitude_def
        np_broadcast_def ax_plot_def save_or_warn_def)

text \<open>
  Claim C10, as stated, fails on the file name: with suffix \<open>my LNA\<close> and label \<open>open load\<close>
  the per-trace chart is saved as \<open>my_LNA_smith_open_load.png\<close>, not under the suffix as
  passed followed by \<open>_smith_open_load.png\<close>.
\<close>

theorem smith_individual_names_counterexample:
  "saved_figures
     (plot_smith_chart \<lparr>cwd = ''/home/lab'', existing = {''/home/lab''}\<rparr>
        [(''open load'', \<lparr>ntwk_f = [1000000], ntwk_s = [1]\<rparr>)]
        ''my LNA'' True (Some ''out'') ''best'' True)
     = [(0, ''out/my_LNA_smith_chart.png''), (1, ''my_LNA_smith_open_load.png'')]
   \<and> (1, ''my LNA'' @ ''_smith_'' @ replace_spaces ''open load'' @ ''.png'')
       \<notin> set (saved_figures
                (plot_smith_chart \<lparr>cwd = ''/home/lab'', existing = {''/home/lab''}\<rparr>
                   [(''open load'', \<lparr>ntwk_f = [1000000], ntwk_s = [1]\<rparr>)]
                   ''my LNA'' True (Some ''out'') ''best'' True))"
  by (simp add: plot_smith_chart_def smith_individual_def Let_def replace_spaces_def pjoin_def)

text \<open>
  Claim C10, amended. With the save flag set and individual charts enabled, the figures
  saved are the combined chart, under \<open>join(save_dir, suffix' + '_smith_chart.png')\<close> (with
  \<open>os.getcwd()\<close> for a missing \<open>save_dir\<close>), and then one chart per entry in order, each
  under the bare name \<open>suffix' + '_smith_' + label' + '.png'\<close>, where \<open>suffix'\<close> and \<open>label'\<close>
  are the suffix and the label with spaces replaced by underscores. The per-trace names do
  not depend on \<open>save_dir\<close>: they are never joined with it, so a relative name lands in the
  current working directory.
\<close>

theorem smith_chart_saved_files:
  "saved_figures (plot_smith_chart env d suffix True save_dir loc True)
     = (0, pjoin (case save_dir of None \<Rightarrow> cwd env | Some dir \<Rightarrow> dir)
                 (replace_spaces suffix @ ''_smith_chart.png''))
       # map (\<lambda>(fig, label, ntwk).
                (fig, replace_spaces suffix @ ''_smith_'' @ replace_spaces label @ ''.png''))
             (enumerate 1 d)"
  by (simp add: plot_smith_chart_saved)

section \<open>Properties of \<open>s11_reflected_power\<close>\<close>










lemma to_double_in_range:
  "float_tiny < \<bar>v\<bar> \<Longrightarrow> \<bar>v\<bar> \<le> float_max \<Longrightarrow> to_double v = Finite v"
  by (simp add: to_double_def)























end
